theory Spec2Isabelle
  imports Main "HOL-Library.AList"
begin

section \<open>Machine integers and time\<close>

text \<open>
  Go's \<^verbatim>\<open>int\<close> is a signed 64-bit integer on the platforms the service is built for.
  Values are modelled as \<open>int\<close>; every addition and subtraction of the source is followed
  by \<open>wrap64\<close>, the two's complement wrap-around. \<open>int64\<close> says that a value is
  representable, which holds of every value a Go variable of type \<^verbatim>\<open>int\<close> can have.
\<close>

definition wrap64 :: "int \<Rightarrow> int" where
  "wrap64 x = (x + 9223372036854775808) mod 18446744073709551616 - 9223372036854775808"

definition int64 :: "int \<Rightarrow> bool" where
  "int64 x = (- 9223372036854775808 \<le> x \<and> x < 9223372036854775808)"

text \<open>
  An instant (\<^verbatim>\<open>time.Time\<close>) is a number of nanoseconds on one time line, a duration
  (\<^verbatim>\<open>time.Duration\<close>) a number of nanoseconds. \<^verbatim>\<open>time.Now()\<close> is an effect: every
  function that reads the clock takes the readings as arguments, in the order in which the
  call makes them. Instants and durations are unbounded integers: the negation of a
  duration and the conversion of an event's seconds to an instant are exact. Go differs at
  the ends of the 64-bit range only (the negation of the least duration wraps, and
  \<^verbatim>\<open>time.Unix\<close> overflows for seconds near the greatest value).
\<close>

type_synonym instant = int
type_synonym duration = int

definition time_Add :: "instant \<Rightarrow> duration \<Rightarrow> instant" where
  "time_Add t d = t + d"

definition time_Before :: "instant \<Rightarrow> instant \<Rightarrow> bool" where
  "time_Before t u = (t < u)"

definition time_After :: "instant \<Rightarrow> instant \<Rightarrow> bool" where
  "time_After t u = (u < t)"

text \<open>The zero value of \<^verbatim>\<open>time.Time\<close>: 1 January of year 1, in nanoseconds before the epoch.\<close>

definition zeroTime :: instant where
  "zeroTime = - 62135596800 * 1000000000"

section \<open>Package node: the node pool\<close>

text \<open>\<^verbatim>\<open>type NodeStatus string\<close>: any string is a status; four are named.\<close>

type_synonym NodeStatus = string

definition NodeStatusBooting :: NodeStatus where
  "NodeStatusBooting = ''booting''"

definition NodeStatusReady :: NodeStatus where
  "NodeStatusReady = ''ready''"

definition NodeStatusAllocated :: NodeStatus where
  "NodeStatusAllocated = ''allocated''"

definition NodeStatusTerminated :: NodeStatus where
  "NodeStatusTerminated = ''terminated''"

record Node =
  ID :: string
  Status :: NodeStatus
  UserID :: string
  CreatedAt :: instant
  UpdatedAt :: instant

text \<open>
  \<^verbatim>\<open>nodes map[string]*Node\<close>. The pool is an association list: the keys are the map's
  keys, and the order of the list is the order in which a \<^verbatim>\<open>range\<close> loop visits the
  map. Go leaves that order open, and so does every theorem below, which holds for every
  list. A write through a \<^verbatim>\<open>*Node\<close> found under a key is an update of the entry of
  that key.
\<close>

type_synonym NodePool = "(string \<times> Node) list"

definition NewNodePool :: NodePool where
  "NewNodePool = []"

definition Add :: "Node \<Rightarrow> NodePool \<Rightarrow> NodePool" where
  "Add node p = AList.update (ID node) node p"

definition Get :: "string \<Rightarrow> NodePool \<Rightarrow> Node option" where
  "Get nodeID p = map_of p nodeID"

definition Remove :: "string \<Rightarrow> NodePool \<Rightarrow> NodePool" where
  "Remove nodeID p = AList.delete nodeID p"

definition GetAllByStatus :: "NodeStatus \<Rightarrow> NodePool \<Rightarrow> Node list" where
  "GetAllByStatus status p = filter (\<lambda>node. Status node = status) (map snd p)"

definition GetReadyNode :: "NodePool \<Rightarrow> Node option" where
  "GetReadyNode p = find (\<lambda>node. Status node = NodeStatusReady) (map snd p)"

text \<open>\<^verbatim>\<open>AllocateNode\<close> returns its boolean together with the pool after the call.\<close>

definition AllocateNode :: "instant \<Rightarrow> string \<Rightarrow> string \<Rightarrow> NodePool \<Rightarrow> bool \<times> NodePool" where
  "AllocateNode now nodeID userID p =
     (case map_of p nodeID of
        None \<Rightarrow> (False, p)
      | Some node \<Rightarrow>
          if Status node \<noteq> NodeStatusReady then (False, p)
          else (True, AList.update nodeID
                  (node\<lparr>Status := NodeStatusAllocated, UserID := userID, UpdatedAt := now\<rparr>) p))"

definition DeallocateNode :: "instant \<Rightarrow> string \<Rightarrow> NodePool \<Rightarrow> NodePool" where
  "DeallocateNode now nodeID p =
     (case map_of p nodeID of
        None \<Rightarrow> p
      | Some node \<Rightarrow>
          AList.update nodeID (node\<lparr>Status := NodeStatusReady, UserID := [], UpdatedAt := now\<rparr>) p)"

definition UpdateStatus :: "instant \<Rightarrow> string \<Rightarrow> NodeStatus \<Rightarrow> NodePool \<Rightarrow> NodePool" where
  "UpdateStatus now nodeID status p =
     (case map_of p nodeID of
        None \<Rightarrow> p
      | Some node \<Rightarrow> AList.update nodeID (node\<lparr>Status := status, UpdatedAt := now\<rparr>) p)"

definition Count :: "NodePool \<Rightarrow> int" where
  "Count p = int (length p)"

text \<open>The counting loop of \<^verbatim>\<open>CountByStatus\<close>, with \<^verbatim>\<open>count++\<close> on a 64-bit integer.\<close>

definition CountByStatus :: "NodeStatus \<Rightarrow> NodePool \<Rightarrow> int" where
  "CountByStatus status p =
     fold (\<lambda>node count. if Status node = status then wrap64 (count + 1) else count) (map snd p) 0"

definition GetAll :: "NodePool \<Rightarrow> Node list" where
  "GetAll p = map snd p"

section \<open>Package user: the user tracker\<close>

record UserState =
  UserStateUserID :: string
  LastActivityTime :: instant
  ActivityCount :: int
  IsConnected :: bool
  AllocatedNodeID :: string

text \<open>\<^verbatim>\<open>users map[string]*UserState\<close>, as an association list like the node pool.\<close>

type_synonym UserTracker = "(string \<times> UserState) list"

definition NewUserTracker :: UserTracker where
  "NewUserTracker = []"

definition RecordActivity :: "string \<Rightarrow> instant \<Rightarrow> UserTracker \<Rightarrow> UserTracker" where
  "RecordActivity userID timestamp t =
     (case map_of t userID of
        None \<Rightarrow>
          AList.update userID
            \<lparr>UserStateUserID = userID, LastActivityTime = timestamp, ActivityCount = 1,
             IsConnected = False, AllocatedNodeID = []\<rparr> t
      | Some state \<Rightarrow>
          AList.update userID
            (state\<lparr>LastActivityTime := timestamp,
                   ActivityCount := wrap64 (ActivityCount state + 1)\<rparr>) t)"

definition GetUserState :: "string \<Rightarrow> UserTracker \<Rightarrow> UserState option" where
  "GetUserState userID t = map_of t userID"

definition MarkConnected :: "string \<Rightarrow> string \<Rightarrow> UserTracker \<Rightarrow> UserTracker" where
  "MarkConnected userID nodeID t =
     (let state = (case map_of t userID of
                     None \<Rightarrow> \<lparr>UserStateUserID = userID, LastActivityTime = zeroTime,
                              ActivityCount = 0, IsConnected = False, AllocatedNodeID = []\<rparr>
                   | Some state \<Rightarrow> state)
      in AList.update userID (state\<lparr>IsConnected := True, AllocatedNodeID := nodeID\<rparr>) t)"

definition MarkDisconnected :: "string \<Rightarrow> UserTracker \<Rightarrow> UserTracker" where
  "MarkDisconnected userID t =
     (case map_of t userID of
        None \<Rightarrow> t
      | Some state \<Rightarrow>
          AList.update userID (state\<lparr>IsConnected := False, AllocatedNodeID := []\<rparr>) t)"

definition GetLikelyToConnect :: "instant \<Rightarrow> int \<Rightarrow> duration \<Rightarrow> UserTracker \<Rightarrow> UserState list" where
  "GetLikelyToConnect now threshold within t =
     (let cutoff = time_Add now (- within)
      in filter (\<lambda>state. \<not> IsConnected state
                         \<and> time_After (LastActivityTime state) cutoff
                         \<and> threshold \<le> ActivityCount state) (map snd t))"

definition ResetActivityCount :: "string \<Rightarrow> UserTracker \<Rightarrow> UserTracker" where
  "ResetActivityCount userID t =
     (case map_of t userID of
        None \<Rightarrow> t
      | Some state \<Rightarrow> AList.update userID (state\<lparr>ActivityCount := 0\<rparr>) t)"

section \<open>Package allocator\<close>

datatype AllocError =
  ErrNoReadyNode | ErrUserNotFound | ErrNodeNotFound | ErrNodeNotReady | ErrAlreadyAllocated

text \<open>
  \<^verbatim>\<open>AllocateNodeToUser\<close> makes two calls to the pool, each under the pool's lock, and the
  lock is free between them. \<open>other\<close> is what the other goroutines do to the pool between
  \<^verbatim>\<open>GetReadyNode\<close> and \<^verbatim>\<open>AllocateNode\<close>; it is the identity when nothing interferes.
  The result is the pair the Go function returns (node id and error, \<open>None\<close> for
  \<^verbatim>\<open>nil\<close>), with the pool and the tracker after the call.
\<close>

definition AllocateNodeToUser ::
  "(NodePool \<Rightarrow> NodePool) \<Rightarrow> instant \<Rightarrow> string \<Rightarrow> NodePool \<times> UserTracker
     \<Rightarrow> (string \<times> AllocError option) \<times> NodePool \<times> UserTracker" where
  "AllocateNodeToUser other now userID s =
     (let pool = fst s; tracker = snd s in
      case (case GetUserState userID tracker of
              None \<Rightarrow> None
            | Some state \<Rightarrow>
                if IsConnected state \<and> AllocatedNodeID state \<noteq> [] then Some state else None) of
        Some state \<Rightarrow> ((AllocatedNodeID state, Some ErrAlreadyAllocated), pool, tracker)
      | None \<Rightarrow>
          (case GetReadyNode pool of
             None \<Rightarrow> (([], Some ErrNoReadyNode), pool, tracker)
           | Some node \<Rightarrow>
               (case AllocateNode now (ID node) userID (other pool) of
                  (success, pool') \<Rightarrow>
                    if \<not> success then (([], Some ErrNodeNotReady), pool', tracker)
                    else ((ID node, None), pool', MarkConnected userID (ID node) tracker))))"

definition DeallocateNodeFromUser ::
  "instant \<Rightarrow> string \<Rightarrow> NodePool \<times> UserTracker \<Rightarrow> AllocError option \<times> NodePool \<times> UserTracker" where
  "DeallocateNodeFromUser now userID s =
     (let pool = fst s; tracker = snd s in
      case GetUserState userID tracker of
        None \<Rightarrow> (Some ErrUserNotFound, pool, tracker)
      | Some state \<Rightarrow>
          if \<not> IsConnected state then (Some ErrUserNotFound, pool, tracker)
          else if AllocatedNodeID state = [] then (Some ErrNodeNotFound, pool, tracker)
          else (None, DeallocateNode now (AllocatedNodeID state) pool,
                MarkDisconnected userID tracker))"

section \<open>Package predictor\<close>

record PredictionConfig =
  ActivityWindow :: duration
  ActivityThreshold :: int
  PredictionWindow :: duration
  MinReadyNodes :: int
  MaxReadyNodes :: int
  IdleTerminationTimeout :: duration
  BootingNodeTimeout :: duration

definition DefaultPredictionConfig :: PredictionConfig where
  "DefaultPredictionConfig =
     \<lparr>ActivityWindow = 2 * 60000000000, ActivityThreshold = 3,
      PredictionWindow = 1 * 60000000000, MinReadyNodes = 1, MaxReadyNodes = 5,
      IdleTerminationTimeout = 5 * 60000000000, BootingNodeTimeout = 2 * 60000000000\<rparr>"

record ScalingDecision =
  ShouldScaleUp :: bool
  ShouldScaleDown :: bool
  TargetNodes :: int
  Reason :: string

text \<open>
  \<^verbatim>\<open>CalculateScaling\<close> reads the pool and the tracker and the clock once (inside
  \<^verbatim>\<open>GetLikelyToConnect\<close>). The four stages are the four blocks of the source: the zero
  decision, the scale-up choice, the cap, the scale-down choice.
\<close>

definition CalculateScaling ::
  "PredictionConfig \<Rightarrow> instant \<Rightarrow> UserTracker \<Rightarrow> NodePool \<Rightarrow> ScalingDecision" where
  "CalculateScaling config now tracker pool =
     (let readyCount = CountByStatus NodeStatusReady pool;
          bootingCount = CountByStatus NodeStatusBooting pool;
          allocatedCount = CountByStatus NodeStatusAllocated pool;
          likelyUsers = GetLikelyToConnect now (ActivityThreshold config) (ActivityWindow config) tracker;
          demand = int (length likelyUsers);
          availableCapacity = wrap64 (readyCount + bootingCount);
          decision0 = \<lparr>ShouldScaleUp = False, ShouldScaleDown = False, TargetNodes = 0, Reason = []\<rparr>;
          decision1 =
            (if demand > availableCapacity then
               decision0\<lparr>ShouldScaleUp := True,
                          TargetNodes := wrap64 (demand - availableCapacity),
                          Reason := ''demand exceeds capacity''\<rparr>
             else if readyCount < MinReadyNodes config
                     \<and> wrap64 (readyCount + bootingCount) < MinReadyNodes config then
               decision0\<lparr>ShouldScaleUp := True,
                          TargetNodes := wrap64 (MinReadyNodes config - wrap64 (readyCount + bootingCount)),
                          Reason := ''maintaining minimum ready nodes''\<rparr>
             else decision0);
          decision2 =
            (if ShouldScaleUp decision1 then
               (let totalNodes = wrap64 (wrap64 (wrap64 (readyCount + bootingCount) + allocatedCount)
                                          + TargetNodes decision1)
                in if totalNodes > MaxReadyNodes config then
                     (let capped = decision1\<lparr>TargetNodes :=
                            wrap64 (MaxReadyNodes config
                                    - wrap64 (wrap64 (readyCount + bootingCount) + allocatedCount))\<rparr>
                      in if TargetNodes capped \<le> 0 then capped\<lparr>ShouldScaleUp := False\<rparr>
                         else capped)
                   else decision1)
             else decision1);
          excessNodes = wrap64 (readyCount - MinReadyNodes config)
      in if excessNodes > 0 \<and> demand = 0 then
           decision2\<lparr>ShouldScaleDown := True, TargetNodes := excessNodes,
                      Reason := ''excess capacity with no demand''\<rparr>
         else decision2)"

text \<open>
  \<^verbatim>\<open>idleNodes[:maxTerminations]\<close> is reached only with
  \<open>0 \<le> maxTerminations < len(idleNodes)\<close>, so the slice expression cannot panic and is
  \<open>take\<close>.
\<close>

definition GetIdleNodes :: "PredictionConfig \<Rightarrow> instant \<Rightarrow> NodePool \<Rightarrow> Node list" where
  "GetIdleNodes config now pool =
     (let readyNodes = GetAllByStatus NodeStatusReady pool;
          cutoff = time_Add now (- IdleTerminationTimeout config);
          idleNodes = filter (\<lambda>n. time_Before (UpdatedAt n) cutoff) readyNodes;
          readyCount = int (length readyNodes);
          maxTerminations0 = wrap64 (readyCount - MinReadyNodes config);
          maxTerminations = (if maxTerminations0 < 0 then 0 else maxTerminations0)
      in if int (length idleNodes) > maxTerminations then take (nat maxTerminations) idleNodes
         else idleNodes)"

definition GetStuckBootingNodes :: "PredictionConfig \<Rightarrow> instant \<Rightarrow> NodePool \<Rightarrow> Node list" where
  "GetStuckBootingNodes config now pool =
     (let bootingNodes = GetAllByStatus NodeStatusBooting pool;
          cutoff = time_Add now (- BootingNodeTimeout config)
      in filter (\<lambda>n. time_Before (CreatedAt n) cutoff) bootingNodes)"

definition ShouldAllocateNode :: "string \<Rightarrow> UserTracker \<Rightarrow> bool" where
  "ShouldAllocateNode userID tracker =
     (case GetUserState userID tracker of
        None \<Rightarrow> True
      | Some state \<Rightarrow> if IsConnected state then False else True)"

section \<open>Package service: the provisioner\<close>

text \<open>
  The node management API is outside the program. A call of
  \<^verbatim>\<open>nodeManager.ProvisionNode\<close> is given its outcome as an argument (\<open>Inl\<close> the error,
  \<open>Inr\<close> the new node id); \<^verbatim>\<open>nodeManager.TerminateNode\<close> is a function from the node
  id to the error it returns, \<open>None\<close> for \<^verbatim>\<open>nil\<close>. The handlers return the list of the
  calls they made.
\<close>

type_synonym ApiError = string

datatype ApiCall = ProvisionNode | TerminateNode string

definition provisionNode ::
  "ApiError + string \<Rightarrow> instant \<Rightarrow> instant \<Rightarrow> NodePool \<Rightarrow> ApiError option \<times> NodePool" where
  "provisionNode outcome t1 t2 pool =
     (case outcome of
        Inl err \<Rightarrow> (Some err, pool)
      | Inr nodeID \<Rightarrow>
          (None, Add \<lparr>ID = nodeID, Status = NodeStatusBooting, UserID = [],
                      CreatedAt = t1, UpdatedAt = t2\<rparr> pool))"

text \<open>
  The loop of \<^verbatim>\<open>cleanupIdleNodes\<close> over the idle nodes. \<open>clock\<close> gives the reading of
  \<^verbatim>\<open>time.Now()\<close> inside the \<^verbatim>\<open>UpdateStatus\<close> call made for a node id.
\<close>

fun terminateIdle ::
  "(string \<Rightarrow> ApiError option) \<Rightarrow> (string \<Rightarrow> instant) \<Rightarrow> Node list \<Rightarrow> NodePool \<Rightarrow> NodePool" where
  "terminateIdle api clock [] pool = pool"
| "terminateIdle api clock (n # ns) pool =
     (case api (ID n) of
        Some err \<Rightarrow> terminateIdle api clock ns pool
      | None \<Rightarrow>
          terminateIdle api clock ns (UpdateStatus (clock (ID n)) (ID n) NodeStatusTerminated pool))"

definition cleanupIdleNodes ::
  "PredictionConfig \<Rightarrow> (string \<Rightarrow> ApiError option) \<Rightarrow> instant \<Rightarrow> (string \<Rightarrow> instant)
     \<Rightarrow> NodePool \<Rightarrow> NodePool" where
  "cleanupIdleNodes config api now clock pool =
     terminateIdle api clock (GetIdleNodes config now pool) pool"

record UserActivityEvent =
  ActivityUserID :: string
  Timestamp :: int

record NodeStatusEvent =
  NodeID :: string
  EventStatus :: string

definition HandleUserActivity :: "UserActivityEvent \<Rightarrow> UserTracker \<Rightarrow> UserTracker" where
  "HandleUserActivity event tracker =
     RecordActivity (ActivityUserID event) (Timestamp event * 1000000000) tracker"

text \<open>
  \<^verbatim>\<open>HandleUserConnect\<close>: \<open>t1\<close> and \<open>t2\<close> are the first and the second reading of the
  clock during the call (one in \<^verbatim>\<open>AllocateNode\<close>, or two in \<^verbatim>\<open>provisionNode\<close>).
  The result is the returned error, the pool, the tracker and the API calls made.
\<close>

definition HandleUserConnect ::
  "(NodePool \<Rightarrow> NodePool) \<Rightarrow> ApiError + string \<Rightarrow> instant \<Rightarrow> instant \<Rightarrow> string
     \<Rightarrow> NodePool \<times> UserTracker \<Rightarrow> AllocError option \<times> NodePool \<times> UserTracker \<times> ApiCall list" where
  "HandleUserConnect other outcome t1 t2 userID s =
     (case AllocateNodeToUser other t1 userID s of
        ((nodeID, err), pool, tracker) \<Rightarrow>
          (case err of
             None \<Rightarrow> (None, pool, tracker, [])
           | Some ErrNoReadyNode \<Rightarrow>
               (case provisionNode outcome t1 t2 pool of
                  (provErr, pool') \<Rightarrow> (err, pool', tracker, [ProvisionNode]))
           | Some ErrAlreadyAllocated \<Rightarrow> (None, pool, tracker, [])
           | Some other_err \<Rightarrow> (err, pool, tracker, [])))"

definition HandleUserDisconnect ::
  "instant \<Rightarrow> string \<Rightarrow> NodePool \<times> UserTracker \<Rightarrow> AllocError option \<times> NodePool \<times> UserTracker" where
  "HandleUserDisconnect now userID s = DeallocateNodeFromUser now userID s"

text \<open>
  \<^verbatim>\<open>HandleNodeStatus\<close> always returns \<^verbatim>\<open>nil\<close>; the model returns the pool. A new node
  takes the clock's first two readings, an update the first.
\<close>

definition HandleNodeStatus :: "instant \<Rightarrow> instant \<Rightarrow> NodeStatusEvent \<Rightarrow> NodePool \<Rightarrow> NodePool" where
  "HandleNodeStatus t1 t2 event pool =
     (case Get (NodeID event) pool of
        None \<Rightarrow>
          Add \<lparr>ID = NodeID event, Status = EventStatus event, UserID = [],
               CreatedAt = t1, UpdatedAt = t2\<rparr> pool
      | Some existing \<Rightarrow> UpdateStatus t1 (NodeID event) (EventStatus event) pool)"

section \<open>States of a running program, and the states used as examples\<close>

text \<open>
  What Go's types guarantee of a configuration, a tracker and a pool: the integers of the
  configuration are 64-bit, and a map has fewer than \<open>2^63\<close> entries.
\<close>

definition representable :: "PredictionConfig \<Rightarrow> UserTracker \<Rightarrow> NodePool \<Rightarrow> bool" where
  "representable config tracker pool =
     (int64 (MinReadyNodes config) \<and> int64 (MaxReadyNodes config)
      \<and> int (length tracker) < 9223372036854775808
      \<and> int (length pool) < 9223372036854775808)"

text \<open>The pool with the \<^verbatim>\<open>UpdatedAt\<close> of every node blanked: what two pools share when
  they differ in those timestamps only.\<close>

definition forgetUpdatedAt :: "NodePool \<Rightarrow> NodePool" where
  "forgetUpdatedAt p = map (\<lambda>(k, n). (k, n\<lparr>UpdatedAt := 0\<rparr>)) p"

text \<open>A node \<open>n1\<close> reported ready at time 10 to the empty pool.\<close>

definition warm_pool :: NodePool where
  "warm_pool =
     HandleNodeStatus 10 11 \<lparr>NodeID = ''n1'', EventStatus = NodeStatusReady\<rparr> NewNodePool"

text \<open>Then user \<open>u1\<close> connects at time 20 and is given \<open>n1\<close>.\<close>

definition allocated_state :: "NodePool \<times> UserTracker" where
  "allocated_state =
     (case HandleUserConnect id (Inl ''unused'') 20 21 ''u1'' (warm_pool, NewUserTracker) of
        (err, pool, tracker, calls) \<Rightarrow> (pool, tracker))"

text \<open>Then the bus reports \<open>n1\<close> terminated at time 30.\<close>

definition terminated_state :: "NodePool \<times> UserTracker" where
  "terminated_state =
     (HandleNodeStatus 30 31 \<lparr>NodeID = ''n1'', EventStatus = NodeStatusTerminated\<rparr>
        (fst allocated_state), snd allocated_state)"

text \<open>Two nodes that became ready at time 0 and were never used.\<close>

definition idle_pool :: NodePool where
  "idle_pool =
     [(''n1'', \<lparr>ID = ''n1'', Status = NodeStatusReady, UserID = [], CreatedAt = 0, UpdatedAt = 0\<rparr>),
      (''n2'', \<lparr>ID = ''n2'', Status = NodeStatusReady, UserID = [], CreatedAt = 0, UpdatedAt = 0\<rparr>)]"

text \<open>Six allocated nodes: one more than the default \<^verbatim>\<open>MaxReadyNodes\<close>.\<close>

definition full_pool :: NodePool where
  "full_pool =
     map (\<lambda>i. (i, \<lparr>ID = i, Status = NodeStatusAllocated, UserID = CHR ''u'' # i,
                      CreatedAt = 0, UpdatedAt = 0\<rparr>))
         [''n1'', ''n2'', ''n3'', ''n4'', ''n5'', ''n6'']"

text \<open>User \<open>u7\<close> after three activity events, at times 997, 998 and 999.\<close>

definition burst_tracker :: UserTracker where
  "burst_tracker =
     RecordActivity ''u7'' 999 (RecordActivity ''u7'' 998 (RecordActivity ''u7'' 997 NewUserTracker))"

text \<open>Another goroutine that allocates \<open>n1\<close> to user \<open>u0\<close> at time 15.\<close>

definition race_other :: "NodePool \<Rightarrow> NodePool" where
  "race_other p = snd (AllocateNode 15 ''n1'' ''u0'' p)"

text \<open>Five allocated nodes: as many as the default \<^verbatim>\<open>MaxReadyNodes\<close>.\<close>

definition at_cap_pool :: NodePool where
  "at_cap_pool =
     map (\<lambda>i. (i, \<lparr>ID = i, Status = NodeStatusAllocated, UserID = CHR ''u'' # i,
                      CreatedAt = 0, UpdatedAt = 0\<rparr>))
         [''n1'', ''n2'', ''n3'', ''n4'', ''n5'']"

text \<open>
  A \<^verbatim>\<open>node:status\<close> message without \<^verbatim>\<open>node_id\<close> reports a ready node whose id is the
  empty string, at time 10; user \<open>u2\<close> connects at time 20 and is given that node.
\<close>

definition unnamed_node_state :: "NodePool \<times> UserTracker" where
  "unnamed_node_state =
     (case HandleUserConnect id (Inl ''unused'') 20 21 ''u2''
             (HandleNodeStatus 10 11 \<lparr>NodeID = [], EventStatus = NodeStatusReady\<rparr> NewNodePool,
              NewUserTracker) of
        (err, pool, tracker, calls) \<Rightarrow> (pool, tracker))"

section \<open>Lemmas on the model\<close>

lemmas example_defs =
  NodeStatusReady_def NodeStatusBooting_def NodeStatusAllocated_def NodeStatusTerminated_def
  NewNodePool_def NewUserTracker_def warm_pool_def allocated_state_def terminated_state_def
  idle_pool_def full_pool_def burst_tracker_def race_other_def DefaultPredictionConfig_def
  at_cap_pool_def unnamed_node_state_def

lemmas pool_defs =
  Add_def Get_def Remove_def GetAllByStatus_def GetReadyNode_def AllocateNode_def
  DeallocateNode_def UpdateStatus_def CountByStatus_def

lemmas tracker_defs =
  RecordActivity_def GetUserState_def MarkConnected_def MarkDisconnected_def
  GetLikelyToConnect_def time_Add_def time_After_def time_Before_def

lemma wrap64_id: "int64 x \<Longrightarrow> wrap64 x = x"
  by (simp add: wrap64_def int64_def)

lemma wrap64_nonneg_exact:
  assumes "- 9223372036854775808 \<le> x" and "x < 18446744073709551616" and "0 \<le> wrap64 x"
  shows "wrap64 x = x"
proof (cases "x < 9223372036854775808")
  case True
  then show ?thesis using assms(1) by (simp add: wrap64_id int64_def)
next
  case False
  define y where "y = x - 9223372036854775808"
  have y: "0 \<le> y" "y < 18446744073709551616" using False assms(2) by (simp_all add: y_def)
  have "x + 9223372036854775808 = y + 18446744073709551616"
    by (simp add: y_def)
  then have "(x + 9223372036854775808) mod 18446744073709551616
          = (y + 18446744073709551616) mod 18446744073709551616"
    by (simp only:)
  also have "\<dots> = y mod 18446744073709551616" by (simp only: mod_add_self2)
  also have "\<dots> = y" using y by (simp only: mod_pos_pos_trivial)
  finally have "wrap64 x = y - 9223372036854775808" by (simp add: wrap64_def)
  then have "wrap64 x < 0" using assms(2) by (simp add: y_def)
  with assms(3) show ?thesis by simp
qed

lemma wrap64_nonpos_exact:
  assumes "- 18446744073709551616 < x" and "x < 9223372036854775808" and "wrap64 x \<le> 0"
  shows "wrap64 x = x"
proof (cases "- 9223372036854775808 \<le> x")
  case True
  then show ?thesis using assms(2) by (simp add: wrap64_id int64_def)
next
  case False
  define y where "y = x + 18446744073709551616 + 9223372036854775808"
  have y: "0 \<le> y" "y < 18446744073709551616" using False assms(1) by (simp_all add: y_def)
  have "x + 9223372036854775808 + 18446744073709551616 = y"
    by (simp add: y_def)
  then have "(x + 9223372036854775808 + 18446744073709551616) mod 18446744073709551616
          = y mod 18446744073709551616"
    by (simp only:)
  then have "(x + 9223372036854775808) mod 18446744073709551616 = y mod 18446744073709551616"
    by (simp only: mod_add_self2)
  also have "\<dots> = y" using y by (simp only: mod_pos_pos_trivial)
  finally have "wrap64 x = y - 9223372036854775808" by (simp add: wrap64_def)
  then have "0 < wrap64 x" using assms(1) by (simp add: y_def)
  with assms(3) show ?thesis by simp
qed

lemma status_distinct:
  "NodeStatusReady \<noteq> NodeStatusBooting" "NodeStatusReady \<noteq> NodeStatusAllocated"
  "NodeStatusReady \<noteq> NodeStatusTerminated" "NodeStatusBooting \<noteq> NodeStatusAllocated"
  "NodeStatusBooting \<noteq> NodeStatusTerminated" "NodeStatusAllocated \<noteq> NodeStatusTerminated"
  by (simp_all add: NodeStatusReady_def NodeStatusBooting_def NodeStatusAllocated_def
        NodeStatusTerminated_def)

subsection \<open>Counting\<close>

lemma count_loop:
  "0 \<le> c \<Longrightarrow> c + int (length ns) < 9223372036854775808 \<Longrightarrow>
   fold (\<lambda>node count. if Status node = status then wrap64 (count + 1) else count) ns c
     = c + int (length (filter (\<lambda>node. Status node = status) ns))"
proof (induction ns arbitrary: c)
  case Nil
  then show ?case by simp
next
  case (Cons n ns)
  have w: "wrap64 (c + 1) = c + 1"
    using Cons.prems by (intro wrap64_id) (simp add: int64_def)
  show ?case
  proof (cases "Status n = status")
    case True
    then show ?thesis using Cons.IH [of "c + 1"] Cons.prems w by simp
  next
    case False
    then show ?thesis using Cons.IH [of c] Cons.prems by simp
  qed
qed

lemma CountByStatus_length:
  "int (length p) < 9223372036854775808 \<Longrightarrow>
   CountByStatus status p = int (length (GetAllByStatus status p))"
  unfolding CountByStatus_def GetAllByStatus_def
  using count_loop [of 0 "map snd p" status] by simp

lemma filter_disjoint_length:
  "(\<And>x. \<not> (P x \<and> Q x)) \<Longrightarrow> length (filter P xs) + length (filter Q xs) \<le> length xs"
  by (induction xs) auto

lemma counts_representable:
  assumes "int (length pool) < 9223372036854775808"
  shows "0 \<le> CountByStatus NodeStatusReady pool"
    and "0 \<le> CountByStatus NodeStatusBooting pool"
    and "0 \<le> CountByStatus NodeStatusAllocated pool"
    and "CountByStatus NodeStatusReady pool + CountByStatus NodeStatusBooting pool
           \<le> int (length pool)"
proof -
  show "0 \<le> CountByStatus NodeStatusReady pool" "0 \<le> CountByStatus NodeStatusBooting pool"
    "0 \<le> CountByStatus NodeStatusAllocated pool"
    using assms by (simp_all add: CountByStatus_length)
  have "length (filter (\<lambda>n. Status n = NodeStatusReady) (map snd pool))
        + length (filter (\<lambda>n. Status n = NodeStatusBooting) (map snd pool))
          \<le> length (map snd pool)"
    by (rule filter_disjoint_length) (simp add: status_distinct)
  then show "CountByStatus NodeStatusReady pool + CountByStatus NodeStatusBooting pool
               \<le> int (length pool)"
    using assms by (simp add: CountByStatus_length GetAllByStatus_def)
qed

lemma filter_disjoint3_length:
  "(\<And>x. \<not> (P x \<and> Q x)) \<Longrightarrow> (\<And>x. \<not> (P x \<and> S x)) \<Longrightarrow> (\<And>x. \<not> (Q x \<and> S x)) \<Longrightarrow>
   length (filter P xs) + length (filter Q xs) + length (filter S xs) \<le> length xs"
  by (induction xs) auto

lemma total_representable:
  assumes "int (length pool) < 9223372036854775808"
  shows "CountByStatus NodeStatusReady pool + CountByStatus NodeStatusBooting pool
           + CountByStatus NodeStatusAllocated pool \<le> int (length pool)"
proof -
  have "length (filter (\<lambda>n. Status n = NodeStatusReady) (map snd pool))
        + length (filter (\<lambda>n. Status n = NodeStatusBooting) (map snd pool))
        + length (filter (\<lambda>n. Status n = NodeStatusAllocated) (map snd pool))
          \<le> length (map snd pool)"
    by (rule filter_disjoint3_length) (simp_all add: status_distinct)
  then show ?thesis
    using assms by (simp add: CountByStatus_length GetAllByStatus_def)
qed

subsection \<open>Looking a node up after an operation\<close>

lemma Get_Add: "Get k (Add node p) = (if k = ID node then Some node else Get k p)"
  by (simp add: Get_def Add_def update_conv')

lemma Get_UpdateStatus:
  "Get k (UpdateStatus now k' s p)
     = (if k = k' then map_option (\<lambda>n. n\<lparr>Status := s, UpdatedAt := now\<rparr>) (Get k p)
        else Get k p)"
  by (simp add: Get_def UpdateStatus_def update_conv' split: option.splits)

lemma Get_DeallocateNode_other: "k' \<noteq> k \<Longrightarrow> Get k (DeallocateNode now k' p) = Get k p"
  by (simp add: Get_def DeallocateNode_def update_conv' split: option.splits)

lemma Get_AllocateNode:
  "Get k p = Some n \<Longrightarrow> Status n \<noteq> NodeStatusReady \<Longrightarrow>
   Get k (snd (AllocateNode now k' u p)) = Some n"
  by (auto simp add: Get_def AllocateNode_def update_conv' split: option.splits)

lemma Get_terminateIdle:
  "Get k p = Some n \<Longrightarrow> Status n = NodeStatusTerminated \<Longrightarrow>
   map_option Status (Get k (terminateIdle api clock ns p)) = Some NodeStatusTerminated"
proof (induction ns arbitrary: p n)
  case Nil
  then show ?case by simp
next
  case (Cons m ns)
  show ?case
  proof (cases "api (ID m)")
    case (Some err)
    then show ?thesis using Cons by simp
  next
    case None
    let ?p = "UpdateStatus (clock (ID m)) (ID m) NodeStatusTerminated p"
    obtain n' where "Get k ?p = Some n'" "Status n' = NodeStatusTerminated"
      using Cons.prems by (cases "k = ID m") (auto simp add: Get_UpdateStatus)
    from Cons.IH [OF this] None show ?thesis by simp
  qed
qed

lemma AllocateNodeToUser_pool_cases:
  "fst (snd (AllocateNodeToUser other now u (pool, tracker))) = pool
   \<or> (\<exists>node. GetReadyNode pool = Some node
        \<and> fst (snd (AllocateNodeToUser other now u (pool, tracker)))
            = snd (AllocateNode now (ID node) u (other pool)))"
  by (auto simp add: AllocateNodeToUser_def Let_def split: option.splits prod.splits)

lemma Get_HandleNodeStatus_status:
  "map_option Status (Get (NodeID event) (HandleNodeStatus t1 t2 event pool))
     = Some (EventStatus event)"
  by (auto simp add: HandleNodeStatus_def Get_def Add_def UpdateStatus_def update_conv'
      split: option.splits)

lemma update_forget:
  "map_of p k = Some n \<Longrightarrow> n'\<lparr>UpdatedAt := 0\<rparr> = n\<lparr>UpdatedAt := 0\<rparr> \<Longrightarrow>
   forgetUpdatedAt (AList.update k n' p) = forgetUpdatedAt p"
  by (induction p) (auto simp add: forgetUpdatedAt_def split: if_splits)

subsection \<open>The scaling decision\<close>

lemma ShouldScaleDown_iff:
  "ShouldScaleDown (CalculateScaling config now tracker pool) =
     (wrap64 (CountByStatus NodeStatusReady pool - MinReadyNodes config) > 0
      \<and> GetLikelyToConnect now (ActivityThreshold config) (ActivityWindow config) tracker = [])"
  by (simp add: CalculateScaling_def Let_def)

lemma ShouldScaleUp_imp:
  "ShouldScaleUp (CalculateScaling config now tracker pool) \<Longrightarrow>
     int (length (GetLikelyToConnect now (ActivityThreshold config) (ActivityWindow config) tracker))
       > wrap64 (CountByStatus NodeStatusReady pool + CountByStatus NodeStatusBooting pool)
     \<or> (CountByStatus NodeStatusReady pool < MinReadyNodes config
        \<and> wrap64 (CountByStatus NodeStatusReady pool + CountByStatus NodeStatusBooting pool)
            < MinReadyNodes config)"
  by (simp add: CalculateScaling_def Let_def split: if_splits)

lemma TargetNodes_cases:
  assumes "representable config tracker pool"
  shows "(0 < TargetNodes (CalculateScaling config now tracker pool))
           = (ShouldScaleUp (CalculateScaling config now tracker pool)
              \<or> ShouldScaleDown (CalculateScaling config now tracker pool))
       \<and> (\<not> ShouldScaleUp (CalculateScaling config now tracker pool)
          \<and> \<not> ShouldScaleDown (CalculateScaling config now tracker pool)
          \<longrightarrow> TargetNodes (CalculateScaling config now tracker pool)
              = (if int (length (GetLikelyToConnect now (ActivityThreshold config)
                                   (ActivityWindow config) tracker))
                      > CountByStatus NodeStatusReady pool + CountByStatus NodeStatusBooting pool
                    \<or> (CountByStatus NodeStatusReady pool < MinReadyNodes config
                       \<and> CountByStatus NodeStatusReady pool + CountByStatus NodeStatusBooting pool
                           < MinReadyNodes config)
                 then MaxReadyNodes config
                        - (CountByStatus NodeStatusReady pool + CountByStatus NodeStatusBooting pool
                           + CountByStatus NodeStatusAllocated pool)
                 else 0))"
proof -
  define R where "R = CountByStatus NodeStatusReady pool"
  define B where "B = CountByStatus NodeStatusBooting pool"
  define A where "A = CountByStatus NodeStatusAllocated pool"
  define M where "M = MinReadyNodes config"
  define X where "X = MaxReadyNodes config"
  define D where "D = int (length (GetLikelyToConnect now (ActivityThreshold config)
                                     (ActivityWindow config) tracker))"
  have len: "int (length pool) < 9223372036854775808" and M: "int64 M" and X: "int64 X"
    and lent: "int (length tracker) < 9223372036854775808"
    using assms by (simp_all add: representable_def M_def X_def)
  have R0: "0 \<le> R" and B0: "0 \<le> B" and A0: "0 \<le> A" and RB: "R + B \<le> int (length pool)"
    using counts_representable [OF len] by (simp_all add: R_def B_def A_def)
  have RBA: "R + B + A \<le> int (length pool)"
    using total_representable [OF len] by (simp add: R_def B_def A_def)
  have cap: "wrap64 (R + B) = R + B"
    using R0 B0 RB len by (intro wrap64_id) (simp add: int64_def)
  have tot: "wrap64 (R + B + A) = R + B + A"
    using R0 B0 A0 RBA len by (intro wrap64_id) (simp add: int64_def)
  have "length (GetLikelyToConnect now (ActivityThreshold config) (ActivityWindow config) tracker)
          \<le> length tracker"
    unfolding GetLikelyToConnect_def Let_def
    using length_filter_le [of _ "map snd tracker"] by simp
  then have D: "0 \<le> D" "D < 9223372036854775808" using lent by (simp_all add: D_def)
  have up1: "wrap64 (D - (R + B)) = D - (R + B)"
    using D R0 B0 RB len by (intro wrap64_id) (simp add: int64_def)
  have up2: "wrap64 (M - (R + B)) = M - (R + B)" if "R + B < M"
    using that M R0 B0 RB len by (intro wrap64_id) (simp add: int64_def)
  have cut: "wrap64 (X - (R + B + A)) = X - (R + B + A)" if "wrap64 (X - (R + B + A)) \<le> 0"
    using that X R0 B0 A0 RBA len by (intro wrap64_nonpos_exact) (simp_all add: int64_def)
  show ?thesis
    unfolding CalculateScaling_def Let_def
    unfolding R_def [symmetric] B_def [symmetric] A_def [symmetric] M_def [symmetric]
      D_def [symmetric] X_def [symmetric]
    using cap tot up1 up2 cut by (auto split: if_splits)
qed

subsection \<open>Idle nodes\<close>

lemma update_ready_count:
  "Status v \<noteq> NodeStatusReady \<Longrightarrow>
   length (filter (\<lambda>n. Status n = NodeStatusReady) (map snd p))
     \<le> Suc (length (filter (\<lambda>n. Status n = NodeStatusReady) (map snd (AList.update k v p))))"
  by (induction p) auto

lemma UpdateStatus_terminated_ready_count:
  "length (GetAllByStatus NodeStatusReady pool)
     \<le> Suc (length (GetAllByStatus NodeStatusReady (UpdateStatus t k NodeStatusTerminated pool)))"
proof (cases "map_of pool k")
  case None
  then show ?thesis by (simp add: UpdateStatus_def)
next
  case (Some node)
  have "Status (node\<lparr>Status := NodeStatusTerminated, UpdatedAt := t\<rparr>) \<noteq> NodeStatusReady"
    using status_distinct by simp
  from update_ready_count [OF this, of pool k] Some show ?thesis
    by (simp add: UpdateStatus_def GetAllByStatus_def)
qed

lemma terminateIdle_ready_count:
  "length (GetAllByStatus NodeStatusReady pool)
     \<le> length ns + length (GetAllByStatus NodeStatusReady (terminateIdle api clock ns pool))"
proof (induction ns arbitrary: pool)
  case Nil
  then show ?case by simp
next
  case (Cons n ns)
  show ?case
  proof (cases "api (ID n)")
    case None
    have "length (GetAllByStatus NodeStatusReady pool)
            \<le> Suc (length (GetAllByStatus NodeStatusReady
                     (UpdateStatus (clock (ID n)) (ID n) NodeStatusTerminated pool)))"
      by (rule UpdateStatus_terminated_ready_count)
    also have "\<dots> \<le> Suc (length ns + length (GetAllByStatus NodeStatusReady
                 (terminateIdle api clock ns
                    (UpdateStatus (clock (ID n)) (ID n) NodeStatusTerminated pool))))"
      using Cons.IH by simp
    finally show ?thesis using None by simp
  next
    case (Some err)
    then show ?thesis using Cons.IH [of pool] by simp
  qed
qed

lemma GetIdleNodes_subset:
  "set (GetIdleNodes config now pool)
     \<subseteq> {n \<in> set (GetAllByStatus NodeStatusReady pool).
          UpdatedAt n < now - IdleTerminationTimeout config}"
  by (auto simp add: GetIdleNodes_def Let_def time_Before_def time_Add_def
        dest: in_set_takeD split: if_splits)

lemma GetIdleNodes_length:
  assumes "int64 (MinReadyNodes config)" and "int (length pool) < 9223372036854775808"
  shows "int (length (GetIdleNodes config now pool))
           \<le> max 0 (int (length (GetAllByStatus NodeStatusReady pool)) - MinReadyNodes config)"
proof -
  define R where "R = int (length (GetAllByStatus NodeStatusReady pool))"
  define w where "w = wrap64 (R - MinReadyNodes config)"
  have "length (GetAllByStatus NodeStatusReady pool) \<le> length pool"
    using length_filter_le [of _ "map snd pool"] by (simp add: GetAllByStatus_def)
  then have R: "0 \<le> R" "R < 9223372036854775808" using assms(2) by (simp_all add: R_def)
  have w: "w \<le> R - MinReadyNodes config" if "0 \<le> w"
    using wrap64_nonneg_exact [of "R - MinReadyNodes config"] that R assms(1)
    by (simp add: w_def int64_def)
  have "int (length (GetIdleNodes config now pool)) \<le> (if w < 0 then 0 else w)"
    unfolding GetIdleNodes_def Let_def R_def [symmetric] w_def [symmetric] by simp
  then show ?thesis using w unfolding R_def [symmetric] by (simp split: if_splits)
qed

section \<open>The claims\<close>

text \<open>
  Claim C1. For every node of the pool, at every quiescent point, \<open>user_id\<close> is non-empty
  if and only if the status is \<open>allocated\<close>; in particular a \<^verbatim>\<open>NodeStatusEvent\<close> that
  moves an allocated node to another status preserves the equivalence.

  The code does not do this. \<^verbatim>\<open>UpdateStatus\<close> writes \<^verbatim>\<open>Status\<close> and \<^verbatim>\<open>UpdatedAt\<close>
  only, so the node keeps the user it was bound to, although the field is documented as
  ``Empty if not allocated'' and \<^verbatim>\<open>DeallocateNode\<close> clears it. The theorem runs the
  handlers from the empty pool: \<open>n1\<close> is reported ready, \<open>u1\<close> connects and is given
  \<open>n1\<close>, \<open>n1\<close> is reported terminated; the node is then terminated and still bound
  to \<open>u1\<close>.
\<close>

theorem terminated_event_keeps_UserID:
  "Get ''n1'' (fst allocated_state)
     = Some \<lparr>ID = ''n1'', Status = NodeStatusAllocated, UserID = ''u1'',
             CreatedAt = 10, UpdatedAt = 20\<rparr>
   \<and> Get ''n1'' (HandleNodeStatus 30 31
                    \<lparr>NodeID = ''n1'', EventStatus = NodeStatusTerminated\<rparr> (fst allocated_state))
     = Some \<lparr>ID = ''n1'', Status = NodeStatusTerminated, UserID = ''u1'',
             CreatedAt = 10, UpdatedAt = 30\<rparr>"
  by (simp add: example_defs pool_defs tracker_defs HandleNodeStatus_def HandleUserConnect_def
      AllocateNodeToUser_def)

text \<open>
  Claim C2. When the node picked by \<^verbatim>\<open>GetReadyNode\<close> is no longer ready at the
  \<^verbatim>\<open>AllocateNode\<close> call, the allocator retries once and returns \<^verbatim>\<open>ErrNoReadyNode\<close> if
  the second attempt fails too.

  The code has no retry: as amended, when the user has no allocation, a node was picked and
  \<^verbatim>\<open>AllocateNode\<close> returns false on the pool the other goroutines left, the allocator
  returns \<^verbatim>\<open>ErrNodeNotReady\<close> with an empty node id at once, and changes neither that
  pool nor the tracker.
\<close>

theorem race_returns_ErrNodeNotReady:
  assumes "case GetUserState userID tracker of
             None \<Rightarrow> True
           | Some state \<Rightarrow> \<not> (IsConnected state \<and> AllocatedNodeID state \<noteq> [])"
    and "GetReadyNode pool = Some node"
    and "fst (AllocateNode now (ID node) userID (other pool)) = False"
  shows "AllocateNodeToUser other now userID (pool, tracker)
           = (([], Some ErrNodeNotReady), other pool, tracker)"
proof -
  have "AllocateNode now (ID node) userID (other pool) = (False, other pool)"
    using assms(3) by (auto simp add: AllocateNode_def split: option.splits if_splits)
  then show ?thesis using assms(1,2)
    by (auto simp add: AllocateNodeToUser_def split: option.splits)
qed

text \<open>The race on \<open>idle_pool\<close>: \<open>n1\<close> is picked for \<open>u1\<close>, another goroutine gives it to
  \<open>u0\<close> first.\<close>

theorem race_returns_ErrNodeNotReady_witness:
  "(case GetUserState ''u1'' NewUserTracker of
      None \<Rightarrow> True
    | Some state \<Rightarrow> \<not> (IsConnected state \<and> AllocatedNodeID state \<noteq> []))
   \<and> GetReadyNode idle_pool
       = Some \<lparr>ID = ''n1'', Status = NodeStatusReady, UserID = [], CreatedAt = 0, UpdatedAt = 0\<rparr>
   \<and> fst (AllocateNode 20 ''n1'' ''u1'' (race_other idle_pool)) = False
   \<and> AllocateNodeToUser race_other 20 ''u1'' (idle_pool, NewUserTracker)
       = (([], Some ErrNodeNotReady), race_other idle_pool, NewUserTracker)"
proof -
  let ?n1 = "\<lparr>ID = ''n1'', Status = NodeStatusReady, UserID = [], CreatedAt = 0, UpdatedAt = 0\<rparr>"
  have h1: "case GetUserState ''u1'' NewUserTracker of
              None \<Rightarrow> True
            | Some state \<Rightarrow> \<not> (IsConnected state \<and> AllocatedNodeID state \<noteq> [])"
    by (simp add: GetUserState_def NewUserTracker_def)
  have h2: "GetReadyNode idle_pool = Some ?n1"
    by (simp add: GetReadyNode_def idle_pool_def)
  have h3: "fst (AllocateNode 20 (ID ?n1) ''u1'' (race_other idle_pool)) = False"
    by (simp add: example_defs AllocateNode_def)
  from race_returns_ErrNodeNotReady [where other = race_other and pool = idle_pool
      and userID = "''u1''" and tracker = NewUserTracker and now = 20 and node = ?n1, OF h1 h2 h3]
    h1 h2 h3
  show ?thesis by simp
qed

text \<open>
  In that race a second ready node, \<open>n2\<close>, is there for a retry to find; the allocator
  returns \<^verbatim>\<open>ErrNodeNotReady\<close> all the same. On \<open>warm_pool\<close>, where \<open>n1\<close> is the
  only node and a second attempt would find none, the error is \<^verbatim>\<open>ErrNodeNotReady\<close> too,
  not \<^verbatim>\<open>ErrNoReadyNode\<close>.
\<close>

theorem no_retry_counterexample:
  "fst (AllocateNode 20 ''n1'' ''u1'' (race_other idle_pool)) = False
   \<and> map_option ID (GetReadyNode (race_other idle_pool)) = Some ''n2''
   \<and> fst (AllocateNodeToUser race_other 20 ''u1'' (idle_pool, NewUserTracker))
       = ([], Some ErrNodeNotReady)
   \<and> fst (AllocateNode 20 ''n1'' ''u1'' (race_other warm_pool)) = False
   \<and> GetReadyNode (race_other warm_pool) = None
   \<and> fst (AllocateNodeToUser race_other 20 ''u1'' (warm_pool, NewUserTracker))
       = ([], Some ErrNodeNotReady)
   \<and> ErrNodeNotReady \<noteq> ErrNoReadyNode"
  by (simp add: example_defs pool_defs tracker_defs AllocateNodeToUser_def HandleNodeStatus_def)

text \<open>
  Claim C3. Once a node is terminated, no operation changes its status to another value.

  The code has no such guard: \<^verbatim>\<open>UpdateStatus\<close> and \<^verbatim>\<open>DeallocateNode\<close> write the status
  of any node that is present. As amended: a terminated node \<open>k\<close> keeps the status
  terminated under \<^verbatim>\<open>AllocateNode\<close> for any node and user (it is refused for \<open>k\<close>
  itself), under \<^verbatim>\<open>AllocateNodeToUser\<close>, under \<^verbatim>\<open>UpdateStatus\<close> and a
  \<^verbatim>\<open>NodeStatusEvent\<close> that carry the status terminated, under the idle cleanup of a
  reconciliation tick, and under \<^verbatim>\<open>UpdateStatus\<close>, \<^verbatim>\<open>DeallocateNode\<close> and a
  \<^verbatim>\<open>NodeStatusEvent\<close> addressed to another node. Nothing is said of
  \<^verbatim>\<open>UpdateStatus\<close> with another status or \<^verbatim>\<open>DeallocateNode\<close> addressed to \<open>k\<close>
  itself.
\<close>

theorem terminated_kept:
  assumes "Get k pool = Some n" and "Status n = NodeStatusTerminated"
  shows "AllocateNode now k u pool = (False, pool)
       \<and> map_option Status (Get k (snd (AllocateNode now k' u pool))) = Some NodeStatusTerminated
       \<and> map_option Status (Get k (fst (snd (AllocateNodeToUser id now u (pool, tracker)))))
           = Some NodeStatusTerminated
       \<and> map_option Status (Get k (UpdateStatus now k' NodeStatusTerminated pool))
           = Some NodeStatusTerminated
       \<and> map_option Status
            (Get k (HandleNodeStatus t1 t2 \<lparr>NodeID = k', EventStatus = NodeStatusTerminated\<rparr> pool))
           = Some NodeStatusTerminated
       \<and> map_option Status (Get k (cleanupIdleNodes config api now clock pool))
           = Some NodeStatusTerminated
       \<and> (k' \<noteq> k \<longrightarrow>
            map_option Status (Get k (UpdateStatus now k' s pool)) = Some NodeStatusTerminated
          \<and> map_option Status (Get k (DeallocateNode now k' pool)) = Some NodeStatusTerminated
          \<and> map_option Status
               (Get k (HandleNodeStatus t1 t2 \<lparr>NodeID = k', EventStatus = s\<rparr> pool))
              = Some NodeStatusTerminated)"
proof -
  have nr: "Status n \<noteq> NodeStatusReady" using assms(2) status_distinct by simp
  have a1: "AllocateNode now k u pool = (False, pool)"
    using assms(1) nr by (simp add: AllocateNode_def Get_def)
  have a2: "map_option Status (Get k (snd (AllocateNode now k' u pool))) = Some NodeStatusTerminated"
    for k' now u
    using Get_AllocateNode [OF assms(1) nr] assms(2) by simp
  have a3: "map_option Status (Get k (fst (snd (AllocateNodeToUser id now u (pool, tracker)))))
           = Some NodeStatusTerminated"
    using AllocateNodeToUser_pool_cases [of id now u pool tracker] a2 [of now _ u] assms
    by auto
  have a4: "map_option Status (Get k (UpdateStatus now k' NodeStatusTerminated pool))
           = Some NodeStatusTerminated" for now k'
    using assms by (cases "k = k'") (auto simp add: Get_UpdateStatus)
  have a5: "map_option Status
              (Get k (HandleNodeStatus t1 t2 \<lparr>NodeID = k', EventStatus = NodeStatusTerminated\<rparr> pool))
           = Some NodeStatusTerminated"
    using a4 assms by (auto simp add: HandleNodeStatus_def Get_Add split: option.splits)
  have a6: "map_option Status (Get k (cleanupIdleNodes config api now clock pool))
           = Some NodeStatusTerminated"
    unfolding cleanupIdleNodes_def by (rule Get_terminateIdle [OF assms])
  have a7: "map_option Status (Get k (UpdateStatus now k' s pool)) = Some NodeStatusTerminated
          \<and> map_option Status (Get k (DeallocateNode now k' pool)) = Some NodeStatusTerminated
          \<and> map_option Status
               (Get k (HandleNodeStatus t1 t2 \<lparr>NodeID = k', EventStatus = s\<rparr> pool))
              = Some NodeStatusTerminated" if "k' \<noteq> k"
    using that assms
    by (auto simp add: Get_UpdateStatus Get_DeallocateNode_other HandleNodeStatus_def Get_Add
        split: option.splits)
  show ?thesis using a1 a2 a3 a4 a5 a6 a7 by blast
qed

text \<open>At the terminated node \<open>n1\<close> of \<open>terminated_state\<close>, with operations on \<open>n1\<close> and
  on another node \<open>n2\<close>.\<close>

theorem terminated_kept_witness:
  "Get ''n1'' (fst terminated_state)
     = Some \<lparr>ID = ''n1'', Status = NodeStatusTerminated, UserID = ''u1'',
             CreatedAt = 10, UpdatedAt = 30\<rparr>
   \<and> ''n2'' \<noteq> ''n1''
   \<and> AllocateNode 40 ''n1'' ''u2'' (fst terminated_state) = (False, fst terminated_state)
   \<and> map_option Status (Get ''n1'' (HandleNodeStatus 40 41
        \<lparr>NodeID = ''n2'', EventStatus = NodeStatusReady\<rparr> (fst terminated_state)))
       = Some NodeStatusTerminated
   \<and> map_option Status (Get ''n1'' (DeallocateNode 40 ''n2'' (fst terminated_state)))
       = Some NodeStatusTerminated"
proof -
  let ?n = "\<lparr>ID = ''n1'', Status = NodeStatusTerminated, UserID = ''u1'',
             CreatedAt = 10, UpdatedAt = 30\<rparr>"
  have h1: "Get ''n1'' (fst terminated_state) = Some ?n"
    by (simp add: example_defs pool_defs tracker_defs HandleNodeStatus_def HandleUserConnect_def
        AllocateNodeToUser_def)
  have h2: "Status ?n = NodeStatusTerminated" by simp
  have h3: "''n2'' \<noteq> ''n1''" by simp
  from terminated_kept [OF h1 h2, of 40 "''u2''" "''n2''" NewUserTracker 40 41
      DefaultPredictionConfig "\<lambda>i. None" "\<lambda>i. 40" NodeStatusReady] h1 h3
  show ?thesis by simp
qed

text \<open>
  The claim itself fails on \<open>terminated_state\<close>: a \<^verbatim>\<open>NodeStatusEvent\<close> with status ready
  makes the terminated \<open>n1\<close> ready again, and so does the disconnect of \<open>u1\<close>, whom the
  tracker still binds to \<open>n1\<close>.
\<close>

theorem terminated_revived_counterexample:
  "map_option Status (Get ''n1'' (fst terminated_state)) = Some NodeStatusTerminated
   \<and> map_option Status (Get ''n1'' (HandleNodeStatus 40 41
        \<lparr>NodeID = ''n1'', EventStatus = NodeStatusReady\<rparr> (fst terminated_state)))
       = Some NodeStatusReady
   \<and> map_option Status (Get ''n1'' (fst (snd (HandleUserDisconnect 40 ''u1'' terminated_state))))
       = Some NodeStatusReady
   \<and> NodeStatusReady \<noteq> NodeStatusTerminated"
  by (simp add: example_defs pool_defs tracker_defs HandleNodeStatus_def HandleUserConnect_def
      HandleUserDisconnect_def AllocateNodeToUser_def DeallocateNodeFromUser_def)

text \<open>
  Claim C4. The decision returned by \<^verbatim>\<open>CalculateScaling\<close> has a non-negative
  \<open>target_delta\<close>, also when the cap clears \<open>scale_up\<close>.

  When the cap clears \<open>scale_up\<close> the code leaves \<^verbatim>\<open>MaxReadyNodes\<close> minus the pool
  total in \<^verbatim>\<open>TargetNodes\<close>, which is negative for a pool above the cap. As amended, with
  \<open>total\<close> the number of ready, booting and allocated nodes, and a scale-up \<open>wanted\<close> when
  the demand exceeds the ready and booting nodes or these are below the minimum:
  \<^verbatim>\<open>TargetNodes\<close> is positive exactly when \<open>scale_up\<close> or \<open>scale_down\<close> is set; when
  neither is set it is 0 if no scale-up was wanted, and \<^verbatim>\<open>MaxReadyNodes\<close> minus \<open>total\<close>
  if one was wanted and the cap cleared it; so it is negative exactly when a wanted
  scale-up was cleared, no scale-down is set, and the pool total is above
  \<^verbatim>\<open>MaxReadyNodes\<close>.
\<close>

theorem TargetNodes_sign:
  assumes "representable config tracker pool"
  shows "let decision = CalculateScaling config now tracker pool;
             total = CountByStatus NodeStatusReady pool + CountByStatus NodeStatusBooting pool
                       + CountByStatus NodeStatusAllocated pool;
             demand = int (length (GetLikelyToConnect now (ActivityThreshold config)
                                     (ActivityWindow config) tracker));
             wanted = (demand > CountByStatus NodeStatusReady pool
                                  + CountByStatus NodeStatusBooting pool
                       \<or> (CountByStatus NodeStatusReady pool < MinReadyNodes config
                          \<and> CountByStatus NodeStatusReady pool + CountByStatus NodeStatusBooting pool
                              < MinReadyNodes config))
         in (0 < TargetNodes decision) = (ShouldScaleUp decision \<or> ShouldScaleDown decision)
          \<and> (\<not> ShouldScaleUp decision \<and> \<not> ShouldScaleDown decision
               \<longrightarrow> TargetNodes decision = (if wanted then MaxReadyNodes config - total else 0))
          \<and> (TargetNodes decision < 0)
               = (wanted \<and> \<not> ShouldScaleUp decision \<and> \<not> ShouldScaleDown decision
                  \<and> MaxReadyNodes config < total)"
proof -
  define decision where "decision = CalculateScaling config now tracker pool"
  define total where "total = CountByStatus NodeStatusReady pool
      + CountByStatus NodeStatusBooting pool + CountByStatus NodeStatusAllocated pool"
  define wanted where "wanted =
      (int (length (GetLikelyToConnect now (ActivityThreshold config)
                      (ActivityWindow config) tracker))
         > CountByStatus NodeStatusReady pool + CountByStatus NodeStatusBooting pool
       \<or> (CountByStatus NodeStatusReady pool < MinReadyNodes config
          \<and> CountByStatus NodeStatusReady pool + CountByStatus NodeStatusBooting pool
              < MinReadyNodes config))"
  have a: "(0 < TargetNodes decision) = (ShouldScaleUp decision \<or> ShouldScaleDown decision)"
    and b: "\<not> ShouldScaleUp decision \<and> \<not> ShouldScaleDown decision
             \<longrightarrow> TargetNodes decision = (if wanted then MaxReadyNodes config - total else 0)"
    using TargetNodes_cases [OF assms, of now]
    by (simp_all add: decision_def total_def wanted_def)
  have c: "(TargetNodes decision < 0)
             = (wanted \<and> \<not> ShouldScaleUp decision \<and> \<not> ShouldScaleDown decision
                \<and> MaxReadyNodes config < total)"
  proof (cases "ShouldScaleUp decision \<or> ShouldScaleDown decision")
    case True
    with a have "0 < TargetNodes decision" by simp
    with True show ?thesis by auto
  next
    case False
    with b have "TargetNodes decision = (if wanted then MaxReadyNodes config - total else 0)"
      by simp
    with False show ?thesis by auto
  qed
  show ?thesis
    unfolding Let_def
    using a b c unfolding decision_def total_def wanted_def by blast
qed

text \<open>Five allocated nodes, the default cap of five, and the user \<open>u7\<close> of
  \<open>burst_tracker\<close> likely to connect at time 1000: the scale-up is wanted and cleared, and
  \<^verbatim>\<open>TargetNodes\<close> is \<open>5 - 5\<close>.\<close>

theorem TargetNodes_sign_witness:
  "representable DefaultPredictionConfig burst_tracker at_cap_pool
   \<and> \<not> ShouldScaleUp (CalculateScaling DefaultPredictionConfig 1000 burst_tracker at_cap_pool)
   \<and> \<not> ShouldScaleDown (CalculateScaling DefaultPredictionConfig 1000 burst_tracker at_cap_pool)
   \<and> TargetNodes (CalculateScaling DefaultPredictionConfig 1000 burst_tracker at_cap_pool) = 0
   \<and> MaxReadyNodes DefaultPredictionConfig
        - (CountByStatus NodeStatusReady at_cap_pool + CountByStatus NodeStatusBooting at_cap_pool
           + CountByStatus NodeStatusAllocated at_cap_pool) = 0"
proof -
  have h: "representable DefaultPredictionConfig burst_tracker at_cap_pool"
    by (simp add: representable_def int64_def example_defs tracker_defs)
  have flags:
    "\<not> ShouldScaleUp (CalculateScaling DefaultPredictionConfig 1000 burst_tracker at_cap_pool)
     \<and> \<not> ShouldScaleDown (CalculateScaling DefaultPredictionConfig 1000 burst_tracker at_cap_pool)"
    by (simp add: CalculateScaling_def example_defs tracker_defs pool_defs wrap64_def Let_def)
  have total: "CountByStatus NodeStatusReady at_cap_pool + CountByStatus NodeStatusBooting at_cap_pool
           + CountByStatus NodeStatusAllocated at_cap_pool = 5"
    by (simp add: example_defs pool_defs wrap64_def)
  have demand: "int (length (GetLikelyToConnect 1000 (ActivityThreshold DefaultPredictionConfig)
                   (ActivityWindow DefaultPredictionConfig) burst_tracker)) = 1"
    by (simp add: example_defs tracker_defs wrap64_def Let_def)
  have counts: "CountByStatus NodeStatusReady at_cap_pool = 0"
    "CountByStatus NodeStatusBooting at_cap_pool = 0"
    by (simp_all add: example_defs pool_defs wrap64_def)
  have mx: "MaxReadyNodes DefaultPredictionConfig = 5" by (simp add: DefaultPredictionConfig_def)
  from TargetNodes_sign [OF h, of 1000] h flags total demand counts mx
  show ?thesis by (simp add: Let_def)
qed

text \<open>With six allocated nodes and the same user likely to connect, the default
  configuration gives \<open>target_delta = - 1\<close> and neither flag.\<close>

theorem TargetNodes_negative_counterexample:
  "representable DefaultPredictionConfig burst_tracker full_pool
   \<and> CalculateScaling DefaultPredictionConfig 1000 burst_tracker full_pool
       = \<lparr>ShouldScaleUp = False, ShouldScaleDown = False, TargetNodes = - 1,
          Reason = ''demand exceeds capacity''\<rparr>
   \<and> \<not> 0 \<le> TargetNodes (CalculateScaling DefaultPredictionConfig 1000 burst_tracker full_pool)"
  by (simp add: representable_def int64_def CalculateScaling_def example_defs tracker_defs
      pool_defs wrap64_def Let_def)

text \<open>
  Claim C5. \<^verbatim>\<open>GetIdleNodes\<close> returns only ready nodes whose \<open>updated_at\<close> is older than
  now minus \<open>idle_termination_timeout\<close>, at most \<open>max(0, R - min_ready_nodes)\<close> of them,
  \<open>R\<close> the number of ready nodes; so a pool with at least \<open>min_ready_nodes\<close> ready nodes
  before the idle terminations of a tick has at least as many after them. Each termination
  may succeed or fail at the node management API.
\<close>

theorem GetIdleNodes_respects_floor:
  assumes "int64 (MinReadyNodes config)" and "int (length pool) < 9223372036854775808"
  shows "set (GetIdleNodes config now pool)
           \<subseteq> {n \<in> set (GetAllByStatus NodeStatusReady pool).
                UpdatedAt n < now - IdleTerminationTimeout config}
         \<and> int (length (GetIdleNodes config now pool))
             \<le> max 0 (int (length (GetAllByStatus NodeStatusReady pool)) - MinReadyNodes config)
         \<and> (MinReadyNodes config \<le> int (length (GetAllByStatus NodeStatusReady pool))
              \<longrightarrow> MinReadyNodes config
                    \<le> int (length (GetAllByStatus NodeStatusReady
                                     (cleanupIdleNodes config api now clock pool))))"
proof (intro conjI impI)
  show "set (GetIdleNodes config now pool)
           \<subseteq> {n \<in> set (GetAllByStatus NodeStatusReady pool).
                UpdatedAt n < now - IdleTerminationTimeout config}"
    by (rule GetIdleNodes_subset)
  show len: "int (length (GetIdleNodes config now pool))
             \<le> max 0 (int (length (GetAllByStatus NodeStatusReady pool)) - MinReadyNodes config)"
    by (rule GetIdleNodes_length [OF assms])
  assume "MinReadyNodes config \<le> int (length (GetAllByStatus NodeStatusReady pool))"
  with len terminateIdle_ready_count [of pool "GetIdleNodes config now pool" api clock]
  show "MinReadyNodes config
          \<le> int (length (GetAllByStatus NodeStatusReady
                           (cleanupIdleNodes config api now clock pool)))"
    by (simp add: cleanupIdleNodes_def)
qed

text \<open>Two ready nodes idle for six minutes, a floor of one, every termination
  succeeding: one node is returned, one ready node is left.\<close>

theorem GetIdleNodes_respects_floor_witness:
  "int64 (MinReadyNodes DefaultPredictionConfig)
   \<and> int (length idle_pool) < 9223372036854775808
   \<and> MinReadyNodes DefaultPredictionConfig \<le> int (length (GetAllByStatus NodeStatusReady idle_pool))
   \<and> map ID (GetIdleNodes DefaultPredictionConfig 360000000000 idle_pool) = [''n1'']
   \<and> MinReadyNodes DefaultPredictionConfig
       \<le> int (length (GetAllByStatus NodeStatusReady
            (cleanupIdleNodes DefaultPredictionConfig (\<lambda>i. None) 360000000000
               (\<lambda>i. 360000000000) idle_pool)))"
proof -
  have h1: "int64 (MinReadyNodes DefaultPredictionConfig)"
    by (simp add: int64_def DefaultPredictionConfig_def)
  have h2: "int (length idle_pool) < 9223372036854775808"
    by (simp add: idle_pool_def)
  have h3: "MinReadyNodes DefaultPredictionConfig
              \<le> int (length (GetAllByStatus NodeStatusReady idle_pool))"
    by (simp add: example_defs GetAllByStatus_def)
  have idle: "map ID (GetIdleNodes DefaultPredictionConfig 360000000000 idle_pool) = [''n1'']"
    by (simp add: GetIdleNodes_def example_defs GetAllByStatus_def time_Add_def time_Before_def
        wrap64_def Let_def)
  from GetIdleNodes_respects_floor [OF h1 h2, of 360000000000 "\<lambda>i. None" "\<lambda>i. 360000000000"]
    h1 h2 h3 idle
  show ?thesis by simp
qed

text \<open>
  Claim C6. Handling the same \<^verbatim>\<open>NodeStatusEvent\<close> a second time leaves every node
  record, with all its fields, as the first handling left it.

  The second handling finds the node and calls \<^verbatim>\<open>UpdateStatus\<close>, which stamps
  \<^verbatim>\<open>UpdatedAt\<close> with the time of the call. As amended: after the duplicate the pool has
  the same nodes in the same order with the same id, status, user and creation time, every
  other node is unchanged in all fields, and the \<^verbatim>\<open>UpdatedAt\<close> of the event's node is the
  time of the second handling.
\<close>

theorem duplicate_NodeStatusEvent:
  "forgetUpdatedAt (HandleNodeStatus t3 t4 event (HandleNodeStatus t1 t2 event pool))
     = forgetUpdatedAt (HandleNodeStatus t1 t2 event pool)
   \<and> Remove (NodeID event) (HandleNodeStatus t3 t4 event (HandleNodeStatus t1 t2 event pool))
     = Remove (NodeID event) (HandleNodeStatus t1 t2 event pool)
   \<and> map_option UpdatedAt (Get (NodeID event)
         (HandleNodeStatus t3 t4 event (HandleNodeStatus t1 t2 event pool))) = Some t3"
proof -
  define p1 where "p1 = HandleNodeStatus t1 t2 event pool"
  obtain n where n: "map_of p1 (NodeID event) = Some n" and s: "Status n = EventStatus event"
    using Get_HandleNodeStatus_status [of event t1 t2 pool] by (auto simp add: p1_def Get_def)
  have p2: "HandleNodeStatus t3 t4 event p1
              = AList.update (NodeID event) (n\<lparr>Status := EventStatus event, UpdatedAt := t3\<rparr>) p1"
    using n by (simp add: HandleNodeStatus_def Get_def UpdateStatus_def)
  have "forgetUpdatedAt (HandleNodeStatus t3 t4 event p1) = forgetUpdatedAt p1"
    unfolding p2 using n s by (intro update_forget) simp_all
  moreover have "Remove (NodeID event) (HandleNodeStatus t3 t4 event p1)
                   = Remove (NodeID event) p1"
    unfolding p2 by (simp add: Remove_def delete_update_same)
  moreover have "map_option UpdatedAt (Get (NodeID event) (HandleNodeStatus t3 t4 event p1))
                   = Some t3"
    unfolding p2 by (simp add: Get_def update_conv')
  ultimately show ?thesis unfolding p1_def by blast
qed

text \<open>The event that made \<open>warm_pool\<close> at times 10 and 11, delivered again at time 30:
  the pool is not the same, \<open>n1\<close> now has \<open>UpdatedAt = 30\<close>.\<close>

theorem duplicate_NodeStatusEvent_counterexample:
  "HandleNodeStatus 30 31 \<lparr>NodeID = ''n1'', EventStatus = NodeStatusReady\<rparr>
     (HandleNodeStatus 10 11 \<lparr>NodeID = ''n1'', EventStatus = NodeStatusReady\<rparr> NewNodePool)
   \<noteq> HandleNodeStatus 10 11 \<lparr>NodeID = ''n1'', EventStatus = NodeStatusReady\<rparr> NewNodePool
   \<and> map_option UpdatedAt (Get ''n1'' warm_pool) = Some 11
   \<and> map_option UpdatedAt (Get ''n1''
        (HandleNodeStatus 30 31 \<lparr>NodeID = ''n1'', EventStatus = NodeStatusReady\<rparr> warm_pool))
       = Some 30"
  by (simp add: example_defs pool_defs HandleNodeStatus_def)

text \<open>
  Claim C7. The decision returned by \<^verbatim>\<open>CalculateScaling\<close> never has \<open>scale_up\<close> and
  \<open>scale_down\<close> both true.
\<close>

theorem CalculateScaling_not_up_and_down:
  assumes "representable config tracker pool"
  shows "\<not> (ShouldScaleUp (CalculateScaling config now tracker pool)
           \<and> ShouldScaleDown (CalculateScaling config now tracker pool))"
proof
  assume both: "ShouldScaleUp (CalculateScaling config now tracker pool)
           \<and> ShouldScaleDown (CalculateScaling config now tracker pool)"
  define R where "R = CountByStatus NodeStatusReady pool"
  define B where "B = CountByStatus NodeStatusBooting pool"
  define M where "M = MinReadyNodes config"
  have len: "int (length pool) < 9223372036854775808" and M: "int64 M"
    using assms by (simp_all add: representable_def M_def)
  have R0: "0 \<le> R" and B0: "0 \<le> B" and RB: "R + B \<le> int (length pool)"
    using counts_representable [OF len] by (simp_all add: R_def B_def)
  have cap: "wrap64 (R + B) = R + B"
    using R0 B0 RB len by (intro wrap64_id) (simp add: int64_def)
  from both have down: "wrap64 (R - M) > 0"
    and nodemand: "GetLikelyToConnect now (ActivityThreshold config) (ActivityWindow config)
                     tracker = []"
    by (simp_all add: ShouldScaleDown_iff R_def M_def)
  from both ShouldScaleUp_imp [of config now tracker pool] nodemand cap R0 B0
  have "R < M" by (simp add: R_def B_def M_def)
  with R0 M RB len have "int64 (R - M)" "R - M < 0" by (simp_all add: int64_def)
  then have "wrap64 (R - M) < 0" by (simp add: wrap64_id)
  with down show False by simp
qed

text \<open>Two ready nodes and no demand: the decision is to scale down, not up.\<close>

theorem CalculateScaling_not_up_and_down_witness:
  "representable DefaultPredictionConfig NewUserTracker idle_pool
   \<and> ShouldScaleDown (CalculateScaling DefaultPredictionConfig 1000 NewUserTracker idle_pool)
   \<and> \<not> ShouldScaleUp (CalculateScaling DefaultPredictionConfig 1000 NewUserTracker idle_pool)"
proof -
  have h: "representable DefaultPredictionConfig NewUserTracker idle_pool"
    by (simp add: representable_def int64_def example_defs)
  have down: "ShouldScaleDown (CalculateScaling DefaultPredictionConfig 1000 NewUserTracker idle_pool)"
    by (simp add: ShouldScaleDown_iff example_defs tracker_defs pool_defs wrap64_def Let_def)
  from CalculateScaling_not_up_and_down [OF h, of 1000] h down show ?thesis by simp
qed

text \<open>
  Claim C8. When \<^verbatim>\<open>AllocateNodeToUser\<close> succeeds, the user's activity count is reset to
  zero as part of the allocation.

  \<^verbatim>\<open>AllocateNodeToUser\<close> calls \<^verbatim>\<open>MarkConnected\<close> and nothing else on the tracker, and
  \<^verbatim>\<open>ResetActivityCount\<close> has no caller. As amended: on success the tracker is the old
  one with the user marked connected to the returned node, and the user's activity count
  is what it was before (zero for a user the tracker did not know).
\<close>

theorem AllocateNodeToUser_keeps_count:
  assumes "fst (AllocateNodeToUser other now userID (pool, tracker)) = (nodeID, None)"
  shows "snd (snd (AllocateNodeToUser other now userID (pool, tracker)))
           = MarkConnected userID nodeID tracker
         \<and> map_option ActivityCount
              (GetUserState userID (snd (snd (AllocateNodeToUser other now userID (pool, tracker)))))
           = Some (case GetUserState userID tracker of
                     None \<Rightarrow> 0
                   | Some state \<Rightarrow> ActivityCount state)"
  using assms
  by (auto simp add: AllocateNodeToUser_def Let_def MarkConnected_def GetUserState_def
      update_conv' split: option.splits if_splits prod.splits)

text \<open>User \<open>u7\<close>, with three recorded activities, connects to \<open>warm_pool\<close>.\<close>

theorem AllocateNodeToUser_keeps_count_witness:
  "fst (AllocateNodeToUser id 1000 ''u7'' (warm_pool, burst_tracker)) = (''n1'', None)
   \<and> snd (snd (AllocateNodeToUser id 1000 ''u7'' (warm_pool, burst_tracker)))
       = MarkConnected ''u7'' ''n1'' burst_tracker
   \<and> map_option ActivityCount (GetUserState ''u7'' burst_tracker) = Some 3"
proof -
  have h: "fst (AllocateNodeToUser id 1000 ''u7'' (warm_pool, burst_tracker)) = (''n1'', None)"
    by (simp add: AllocateNodeToUser_def example_defs pool_defs tracker_defs
        HandleNodeStatus_def wrap64_def)
  have c: "map_option ActivityCount (GetUserState ''u7'' burst_tracker) = Some 3"
    by (simp add: example_defs tracker_defs wrap64_def)
  from AllocateNodeToUser_keeps_count [OF h] h c show ?thesis by simp
qed

text \<open>After that successful allocation the activity count of \<open>u7\<close> is still 3.\<close>

theorem activity_count_not_reset_counterexample:
  "fst (AllocateNodeToUser id 1000 ''u7'' (warm_pool, burst_tracker)) = (''n1'', None)
   \<and> map_option ActivityCount
        (GetUserState ''u7'' (snd (snd (AllocateNodeToUser id 1000 ''u7'' (warm_pool, burst_tracker)))))
       = Some 3"
  by (simp add: AllocateNodeToUser_def example_defs pool_defs tracker_defs
      HandleNodeStatus_def wrap64_def)

text \<open>
  Claim C9. For a user the tracker knows, \<^verbatim>\<open>RecordActivity\<close> with timestamp \<open>ts\<close>
  overwrites the stored last-activity time with \<open>ts\<close>, also when \<open>ts\<close> is earlier than
  the stored time: the last-activity time is not monotone in the order of delivery. (The
  call also counts the activity.)
\<close>

theorem RecordActivity_overwrites:
  assumes "GetUserState userID t = Some state"
  shows "GetUserState userID (RecordActivity userID ts t)
           = Some (state\<lparr>LastActivityTime := ts,
                          ActivityCount := wrap64 (ActivityCount state + 1)\<rparr>)"
  using assms by (simp add: GetUserState_def RecordActivity_def update_conv')

text \<open>User \<open>u7\<close> was last active at 999; an event with timestamp 50 arrives late and
  moves the last-activity time back to 50.\<close>

theorem RecordActivity_overwrites_witness:
  "map_option LastActivityTime (GetUserState ''u7'' burst_tracker) = Some 999
   \<and> map_option LastActivityTime (GetUserState ''u7'' (RecordActivity ''u7'' 50 burst_tracker))
       = Some 50
   \<and> (50 :: int) < 999"
proof -
  let ?s = "\<lparr>UserStateUserID = ''u7'', LastActivityTime = 999, ActivityCount = 3,
             IsConnected = False, AllocatedNodeID = []\<rparr>"
  have h: "GetUserState ''u7'' burst_tracker = Some ?s"
    by (simp add: example_defs tracker_defs wrap64_def)
  from RecordActivity_overwrites [OF h, of 50] h show ?thesis by simp
qed

text \<open>
  Claim C10. When \<^verbatim>\<open>AllocateNodeToUser\<close> returns \<^verbatim>\<open>ErrNoReadyNode\<close>,
  \<^verbatim>\<open>HandleUserConnect\<close> makes one emergency provision call and then returns the error
  (not \<^verbatim>\<open>nil\<close>), leaving the user not connected in the tracker.

  The handler does not touch the tracker, and \<^verbatim>\<open>AllocateNodeToUser\<close> lets through a
  user whose \<^verbatim>\<open>IsConnected\<close> flag is set with an empty \<^verbatim>\<open>AllocatedNodeID\<close>; that user
  keeps the flag. As amended: the handler makes exactly one provision call and returns
  \<^verbatim>\<open>ErrNoReadyNode\<close> whatever the outcome of that call; the pool changes by that
  provision only; the tracker is unchanged, so the user's \<^verbatim>\<open>IsConnected\<close> flag is what
  it was; and the user is bound to no node: \<^verbatim>\<open>IsConnected\<close> with a non-empty
  \<^verbatim>\<open>AllocatedNodeID\<close> does not hold.
\<close>

theorem HandleUserConnect_no_ready_node:
  assumes "snd (fst (AllocateNodeToUser other t1 userID (pool, tracker))) = Some ErrNoReadyNode"
  shows "HandleUserConnect other outcome t1 t2 userID (pool, tracker)
           = (Some ErrNoReadyNode, snd (provisionNode outcome t1 t2 pool), tracker, [ProvisionNode])
         \<and> map_option IsConnected
              (GetUserState userID
                 (fst (snd (snd (HandleUserConnect other outcome t1 t2 userID (pool, tracker))))))
             = map_option IsConnected (GetUserState userID tracker)
         \<and> (case GetUserState userID tracker of
               None \<Rightarrow> True
             | Some state \<Rightarrow> \<not> (IsConnected state \<and> AllocatedNodeID state \<noteq> []))"
  using assms
  by (auto simp add: HandleUserConnect_def AllocateNodeToUser_def Let_def
      split: option.splits if_splits prod.splits)

text \<open>User \<open>u2\<close> connects to the empty pool; the API creates node \<open>n9\<close>.\<close>

theorem HandleUserConnect_no_ready_node_witness:
  "snd (fst (AllocateNodeToUser id 20 ''u2'' (NewNodePool, NewUserTracker))) = Some ErrNoReadyNode
   \<and> HandleUserConnect id (Inr ''n9'') 20 21 ''u2'' (NewNodePool, NewUserTracker)
       = (Some ErrNoReadyNode,
          [(''n9'', \<lparr>ID = ''n9'', Status = NodeStatusBooting, UserID = [],
                     CreatedAt = 20, UpdatedAt = 21\<rparr>)],
          NewUserTracker, [ProvisionNode])
   \<and> GetUserState ''u2'' NewUserTracker = None"
proof -
  have h: "snd (fst (AllocateNodeToUser id 20 ''u2'' (NewNodePool, NewUserTracker)))
             = Some ErrNoReadyNode"
    by (simp add: AllocateNodeToUser_def example_defs pool_defs tracker_defs)
  have p: "snd (provisionNode (Inr ''n9'') 20 21 NewNodePool)
             = [(''n9'', \<lparr>ID = ''n9'', Status = NodeStatusBooting, UserID = [],
                           CreatedAt = 20, UpdatedAt = 21\<rparr>)]"
    by (simp add: provisionNode_def Add_def NewNodePool_def)
  have u: "GetUserState ''u2'' NewUserTracker = None"
    by (simp add: GetUserState_def NewUserTracker_def)
  from HandleUserConnect_no_ready_node [OF h, of "Inr ''n9''" 21] h p u show ?thesis by simp
qed

text \<open>
  In \<open>unnamed_node_state\<close> user \<open>u2\<close> is flagged connected with an empty node id. A
  second connect of \<open>u2\<close> at time 30 finds no ready node: the handler provisions,
  returns \<^verbatim>\<open>ErrNoReadyNode\<close>, and \<open>u2\<close> is still flagged connected in the tracker.
\<close>

theorem flag_kept_counterexample:
  "snd (fst (AllocateNodeToUser id 30 ''u2'' unnamed_node_state)) = Some ErrNoReadyNode
   \<and> fst (HandleUserConnect id (Inr ''n9'') 30 31 ''u2'' unnamed_node_state) = Some ErrNoReadyNode
   \<and> snd (snd (snd (HandleUserConnect id (Inr ''n9'') 30 31 ''u2'' unnamed_node_state)))
       = [ProvisionNode]
   \<and> map_option IsConnected
        (GetUserState ''u2''
           (fst (snd (snd (HandleUserConnect id (Inr ''n9'') 30 31 ''u2'' unnamed_node_state)))))
       = Some True"
  by (simp add: example_defs pool_defs tracker_defs HandleNodeStatus_def
      HandleUserConnect_def AllocateNodeToUser_def provisionNode_def)

end
